theory Spec2Isabelle
  imports Complex_Main "HOL-Library.Multiset"
begin

section \<open>JavaScript values\<close>

text \<open>
  The tools receive catalog rows from the driver as plain JavaScript data. A value is
  undefined, null, a boolean, a number, a string, an array or a plain object whose
  properties are kept in insertion order (the order \<^verbatim>\<open>Object.entries\<close> walks).
  Strings are sequences of ASCII characters, so that \<^verbatim>\<open>toUpperCase\<close> and
  \<^verbatim>\<open>toLowerCase\<close> only move the letters a-z and A-Z.
\<close>

text \<open>
  A number is a double: not a number, an infinity, or a finite value, which is a
  rational. The two zeros are one value: they print alike, compare equal and both count
  as false.
\<close>

datatype jsnumber = NaN | PosInfinity | NegInfinity | Finite rat

datatype jsval =
    JUndefined
  | JNull
  | JBool bool
  | JNum jsnumber
  | JStr string
  | JArr "jsval list"
  | JObj "(string \<times> jsval) list"

text \<open>The truth value of \<^verbatim>\<open>!type\<close>, \<^verbatim>\<open>a && b\<close> and \<^verbatim>\<open>if (v)\<close>.\<close>

fun truthy :: "jsval \<Rightarrow> bool" where
  "truthy JUndefined = False"
| "truthy JNull = False"
| "truthy (JBool b) = b"
| "truthy (JNum NaN) = False"
| "truthy (JNum PosInfinity) = True"
| "truthy (JNum NegInfinity) = True"
| "truthy (JNum (Finite q)) = (q \<noteq> 0)"
| "truthy (JStr s) = (s \<noteq> [])"
| "truthy (JArr vs) = True"
| "truthy (JObj fs) = True"

text \<open>
  Property access \<^verbatim>\<open>v.k\<close> for the data properties the tools read: a property a
  plain object does not have, and any such property of a non-object, reads as undefined.
\<close>

fun js_get :: "jsval \<Rightarrow> string \<Rightarrow> jsval" where
  "js_get (JObj fs) k = (case map_of fs k of Some v \<Rightarrow> v | None \<Rightarrow> JUndefined)"
| "js_get v k = JUndefined"

fun is_string :: "jsval \<Rightarrow> bool" where
  "is_string (JStr s) = True"
| "is_string v = False"

text \<open>\<^verbatim>\<open>typeof v === 'object'\<close>: objects, arrays and null.\<close>

fun is_object :: "jsval \<Rightarrow> bool" where
  "is_object (JArr vs) = True"
| "is_object (JObj fs) = True"
| "is_object JNull = True"
| "is_object v = False"

fun is_array :: "jsval \<Rightarrow> bool" where
  "is_array (JArr vs) = True"
| "is_array v = False"

fun elems :: "jsval \<Rightarrow> jsval list" where
  "elems (JArr vs) = vs"
| "elems v = []"

text \<open>\<^verbatim>\<open>a[0]\<close> on an array: undefined when the array is empty.\<close>

fun index0 :: "jsval \<Rightarrow> jsval" where
  "index0 (JArr (v # vs)) = v"
| "index0 v = JUndefined"

subsection \<open>Strings\<close>

definition toLowerCase_char :: "char \<Rightarrow> char" where
  "toLowerCase_char c =
     (let n = (of_char c :: nat) in if 65 \<le> n \<and> n \<le> 90 then char_of (n + 32) else c)"

definition toUpperCase_char :: "char \<Rightarrow> char" where
  "toUpperCase_char c =
     (let n = (of_char c :: nat) in if 97 \<le> n \<and> n \<le> 122 then char_of (n - 32) else c)"

definition toLowerCase :: "string \<Rightarrow> string" where
  "toLowerCase s = map toLowerCase_char s"

definition toUpperCase :: "string \<Rightarrow> string" where
  "toUpperCase s = map toUpperCase_char s"

fun digit_char :: "nat \<Rightarrow> char" where
  "digit_char n = char_of (48 + n)"

declare digit_char.simps [simp del]

fun show_nat :: "nat \<Rightarrow> string" where
  "show_nat n = (if n < 10 then [digit_char n] else show_nat (n div 10) @ [digit_char (n mod 10)])"

declare show_nat.simps [simp del]

definition show_int :: "int \<Rightarrow> string" where
  "show_int i = (if i < 0 then CHR ''-'' # show_nat (nat (- i)) else show_nat (nat i))"

text \<open>\<^verbatim>\<open>Array.prototype.join\<close> on an array of strings.\<close>

fun join :: "string \<Rightarrow> string list \<Rightarrow> string" where
  "join sep [] = []"
| "join sep [x] = x"
| "join sep (x # y # ys) = x @ sep @ join sep (y # ys)"

text \<open>
  How a number prints (\<^verbatim>\<open>Number::toString\<close>). An integer of magnitude up to
  \<open>2\<^sup>5\<^sup>3\<close> prints as its decimal digits. For every other finite value the digits
  are the runtime's shortest round-trip digits, in plain or exponent notation: that
  printing is the parameter \<open>numstr\<close>.
\<close>

fun Number_toString :: "(rat \<Rightarrow> string) \<Rightarrow> jsnumber \<Rightarrow> string" where
  "Number_toString numstr NaN = ''NaN''"
| "Number_toString numstr PosInfinity = ''Infinity''"
| "Number_toString numstr NegInfinity = ''-Infinity''"
| "Number_toString numstr (Finite q) =
     (if of_int \<lfloor>q\<rfloor> = q \<and> \<bar>q\<bar> \<le> 2 ^ 53 then show_int \<lfloor>q\<rfloor> else numstr q)"

text \<open>\<^verbatim>\<open>a.map(f)\<close> where \<open>f\<close> may throw: the first throw ends the loop.\<close>

fun all_or_throw :: "'a option list \<Rightarrow> 'a list option" where
  "all_or_throw [] = Some []"
| "all_or_throw (None # xs) = None"
| "all_or_throw (Some x # xs) = map_option ((#) x) (all_or_throw xs)"

text \<open>
  \<^verbatim>\<open>String(v)\<close>, which is also what a template literal does to an
  interpolated value; \<open>None\<close> is a thrown TypeError. An array prints its elements
  joined by commas, null and undefined elements as nothing. A plain object prints as
  \<^verbatim>\<open>[object Object]\<close> through the \<^verbatim>\<open>toString\<close> it inherits; with a property
  of its own called \<^verbatim>\<open>toString\<close>, which in plain data is never a function, the
  conversion throws.
\<close>

fun js_String :: "(rat \<Rightarrow> string) \<Rightarrow> jsval \<Rightarrow> string option" where
  "js_String numstr JUndefined = Some ''undefined''"
| "js_String numstr JNull = Some ''null''"
| "js_String numstr (JBool b) = Some (if b then ''true'' else ''false'')"
| "js_String numstr (JNum x) = Some (Number_toString numstr x)"
| "js_String numstr (JStr s) = Some s"
| "js_String numstr (JArr vs) =
     map_option (join '','')
       (all_or_throw
          (map (\<lambda>v. if v = JUndefined \<or> v = JNull then Some [] else js_String numstr v) vs))"
| "js_String numstr (JObj fs) =
     (if ''toString'' \<in> fst ` set fs then None else Some ''[object Object]'')"


section \<open>DescribeTableTool.getColumnTypeString\<close>

lemma size_map_of:
  "map_of fs k = Some v \<Longrightarrow> size v < Suc (size_list (size_prod (\<lambda>x. 0) size) fs)"
  by (induction fs) (auto split: if_splits)

lemma size_js_get: "js_get t k \<noteq> JUndefined \<Longrightarrow> size (js_get t k) < size t"
  by (cases t) (auto split: option.splits dest: size_map_of)

lemma size_js_get_truthy: "truthy (js_get t k) \<Longrightarrow> size (js_get t k) < size t"
  by (rule size_js_get) auto

lemma size_elems: "v \<in> set (elems t) \<Longrightarrow> size v < size t"
  by (cases t) (auto simp: less_Suc_eq_le size_list_estimation')

lemma size_index0: "is_array t \<Longrightarrow> size (index0 t) < size t"
  by (cases t rule: index0.cases) auto

text \<open>
  The table \<^verbatim>\<open>types.dataTypes\<close> belongs to the driver, not to this repository:
  it is the parameter \<open>dataTypes\<close>, the list of its (name, code) entries in the order
  \<^verbatim>\<open>Object.entries\<close> walks them. The function is declared to return a string but
  returns \<^verbatim>\<open>type.name\<close> as it finds it, so the result is a value; every other
  branch returns a string.

  The body of the \<^verbatim>\<open>try\<close> block is an optional value, \<open>None\<close> when it throws,
  and the \<^verbatim>\<open>catch\<close> branch turns \<open>None\<close> into unknown. Two things throw: a
  string conversion (see \<open>js_String\<close>), and a nested call for which the stack has no
  room. \<open>stack\<close> is the number of calls that can still be nested in this one before
  the overflow is caught.
\<close>

function getColumnTypeString ::
  "nat \<Rightarrow> (string \<times> int) list \<Rightarrow> (rat \<Rightarrow> string) \<Rightarrow> jsval \<Rightarrow> jsval"
where
  "getColumnTypeString stack dataTypes numstr type =
    (if \<not> truthy type then JStr ''unknown''
     else
       case
         (if is_string type then Some type
          else if is_object type then
            (if js_get type ''code'' \<noteq> JUndefined then
               (let typeCode = js_get type ''code'' in
                case find (\<lambda>(name, code). typeCode = JNum (Finite (of_int code))) dataTypes of
                  Some (name, code) \<Rightarrow> Some (JStr (toLowerCase name))
                | None \<Rightarrow>
                    map_option (\<lambda>s. JStr (''type_'' @ s)) (js_String numstr typeCode))
             else if truthy (js_get type ''name'') then Some (js_get type ''name'')
             else if truthy (js_get type ''info'')
                     \<and> truthy (js_get (js_get type ''info'') ''keyType'')
                     \<and> truthy (js_get (js_get type ''info'') ''valueType'') then
               (if stack = 0 then None
                else
                  case js_String numstr
                         (getColumnTypeString (stack - 1) dataTypes numstr
                            (js_get (js_get type ''info'') ''keyType'')) of
                    None \<Rightarrow> None
                  | Some keyType \<Rightarrow>
                      (case js_String numstr
                              (getColumnTypeString (stack - 1) dataTypes numstr
                                 (js_get (js_get type ''info'') ''valueType'')) of
                         None \<Rightarrow> None
                       | Some valueType \<Rightarrow>
                           Some (JStr (''map<'' @ keyType @ '', '' @ valueType @ ''>''))))
             else if truthy (js_get type ''info'')
                     \<and> truthy (js_get (js_get type ''info'') ''elementType'') then
               (if stack = 0 then None
                else
                  map_option (\<lambda>elementType. JStr (''list<'' @ elementType @ ''>''))
                    (js_String numstr
                       (getColumnTypeString (stack - 1) dataTypes numstr
                          (js_get (js_get type ''info'') ''elementType''))))
             else if truthy (js_get type ''info'') \<and> is_array (js_get type ''info'') then
               (if stack = 0 then None
                else
                  map_option (\<lambda>elementType. JStr (''set<'' @ elementType @ ''>''))
                    (js_String numstr
                       (getColumnTypeString (stack - 1) dataTypes numstr
                          (index0 (js_get type ''info'')))))
             else if truthy (js_get type ''info'')
                     \<and> is_array (js_get (js_get type ''info'') ''types'') then
               (if stack = 0 \<and> elems (js_get (js_get type ''info'') ''types'') \<noteq> [] then None
                else
                  map_option (\<lambda>tupleTypes. JStr (''tuple<'' @ join '', '' tupleTypes @ ''>''))
                    (all_or_throw
                       (map (\<lambda>t. js_String numstr
                                     (getColumnTypeString (stack - 1) dataTypes numstr t))
                            (elems (js_get (js_get type ''info'') ''types'')))))
             else map_option JStr (js_String numstr type))
          else map_option JStr (js_String numstr type))
       of
         None \<Rightarrow> JStr ''unknown''
       | Some v \<Rightarrow> v)"
  by pat_completeness auto
termination
proof (relation "measure (\<lambda>(stack, dataTypes, numstr, t). size t)", goal_cases)
  case 1
  show ?case by simp
next
  case (2 stack dataTypes numstr t)
  then show ?case
    using size_js_get_truthy[of "js_get t ''info''" "''keyType''"]
      size_js_get_truthy[of t "''info''"] by simp
next
  case (3 stack dataTypes numstr t)
  then show ?case
    using size_js_get_truthy[of "js_get t ''info''" "''valueType''"]
      size_js_get_truthy[of t "''info''"] by simp
next
  case (4 stack dataTypes numstr t)
  then show ?case
    using size_js_get_truthy[of "js_get t ''info''" "''elementType''"]
      size_js_get_truthy[of t "''info''"] by simp
next
  case (5 stack dataTypes numstr t)
  then show ?case
    using size_index0[of "js_get t ''info''"] size_js_get_truthy[of t "''info''"] by simp
next
  case (6 stack dataTypes numstr t x)
  then show ?case
    using size_elems[of x "js_get (js_get t ''info'') ''types''"]
      size_js_get[of "js_get t ''info''" "''types''"] size_js_get_truthy[of t "''info''"]
    by (cases "js_get (js_get t ''info'') ''types''") auto
qed

declare getColumnTypeString.simps [simp del]

text \<open>
  The driver's table, for evaluating the function on concrete descriptors (the entries
  of \<^verbatim>\<open>types.dataTypes\<close> of cassandra-driver that hold a code).
\<close>

definition driver_dataTypes :: "(string \<times> int) list" where
  "driver_dataTypes =
     [(''custom'', 0), (''ascii'', 1), (''bigint'', 2), (''blob'', 3), (''boolean'', 4),
      (''counter'', 5), (''decimal'', 6), (''double'', 7), (''float'', 8), (''int'', 9),
      (''text'', 10), (''timestamp'', 11), (''uuid'', 12), (''varchar'', 13),
      (''varint'', 14), (''timeuuid'', 15), (''inet'', 16), (''date'', 17), (''time'', 18),
      (''smallint'', 19), (''tinyint'', 20), (''duration'', 21), (''list'', 32),
      (''map'', 33), (''set'', 34), (''udt'', 48), (''tuple'', 49)]"

subsection \<open>Shapes of raw type descriptors\<close>

fun is_number :: "jsval \<Rightarrow> bool" where
  "is_number (JNum n) = True"
| "is_number v = False"

text \<open>
  A descriptor of no recognised shape: not a string, without a numeric
  \<^verbatim>\<open>code\<close> property, without a \<^verbatim>\<open>name\<close> that counts as true, and whose
  \<^verbatim>\<open>info\<close> has neither key and value types, nor an element type, nor is an array,
  nor holds an array of types.
\<close>

definition unrecognized :: "jsval \<Rightarrow> bool" where
  "unrecognized raw \<longleftrightarrow>
     \<not> is_string raw
     \<and> \<not> is_number (js_get raw ''code'')
     \<and> \<not> truthy (js_get raw ''name'')
     \<and> \<not> (truthy (js_get (js_get raw ''info'') ''keyType'')
          \<and> truthy (js_get (js_get raw ''info'') ''valueType''))
     \<and> \<not> truthy (js_get (js_get raw ''info'') ''elementType'')
     \<and> \<not> is_array (js_get raw ''info'')
     \<and> \<not> is_array (js_get (js_get raw ''info'') ''types'')"

text \<open>
  The resolvable shapes: a plain name; an object with a numeric code; an object with a
  name string; and, for an object with neither, the map, list, set and tuple shapes of
  its \<^verbatim>\<open>info\<close>.
\<close>

definition resolvable_shape :: "jsval \<Rightarrow> bool" where
  "resolvable_shape raw \<longleftrightarrow>
     is_string raw
     \<or> is_number (js_get raw ''code'')
     \<or> (js_get raw ''code'' = JUndefined
        \<and> is_string (js_get raw ''name'') \<and> truthy (js_get raw ''name''))
     \<or> (js_get raw ''code'' = JUndefined \<and> \<not> truthy (js_get raw ''name'')
        \<and> ((truthy (js_get (js_get raw ''info'') ''keyType'')
               \<and> truthy (js_get (js_get raw ''info'') ''valueType''))
           \<or> truthy (js_get (js_get raw ''info'') ''elementType'')
           \<or> is_array (js_get raw ''info'')
           \<or> is_array (js_get (js_get raw ''info'') ''types'')))"

text \<open>A map from text to a set of int, as a raw descriptor.\<close>

definition map_descriptor :: jsval where
  "map_descriptor =
     JObj [(''info'', JObj [(''keyType'', JStr ''text''),
                            (''valueType'', JObj [(''info'', JArr [JStr ''int''])])])]"

section \<open>ShowTableSchemaTool.execute\<close>

text \<open>
  The rows of \<^verbatim>\<open>system_schema.columns\<close> and \<^verbatim>\<open>system_schema.key_columns\<close>
  carry text and int columns; \<^verbatim>\<open>clustering_order\<close> may be null (\<open>None\<close>). The
  row of \<^verbatim>\<open>system_schema.tables\<close> is read through \<^verbatim>\<open>Object.entries\<close>, so it
  stays a list of (key, value) pairs.
\<close>

record column_row =
  col_column_name :: string
  col_type :: string
  col_position :: int

record key_row =
  column_name :: string
  kind :: string
  position :: int
  clustering_order :: "string option"

text \<open>
  What \<^verbatim>\<open>execute\<close> returns: \<^verbatim>\<open>{ message }\<close>, \<^verbatim>\<open>{ schema }\<close>, or
  \<^verbatim>\<open>{ error }\<close> from the \<^verbatim>\<open>catch\<close> branch.
\<close>

datatype result = Message string | Schema string | Error

text \<open>
  \<^verbatim>\<open>Array.prototype.sort\<close> with a comparator is a stable sort: the result is
  ordered by the comparator, and elements the comparator does not separate keep their
  input order. Insertion sort, the later elements inserted first, computes that result.
\<close>

fun insert_sorted :: "('a \<Rightarrow> 'a \<Rightarrow> int) \<Rightarrow> 'a \<Rightarrow> 'a list \<Rightarrow> 'a list" where
  "insert_sorted cmp x [] = [x]"
| "insert_sorted cmp x (y # ys) =
     (if cmp x y \<le> 0 then x # y # ys else y # insert_sorted cmp x ys)"

fun js_sort :: "('a \<Rightarrow> 'a \<Rightarrow> int) \<Rightarrow> 'a list \<Rightarrow> 'a list" where
  "js_sort cmp [] = []"
| "js_sort cmp (x # xs) = insert_sorted cmp x (js_sort cmp xs)"

text \<open>The comparator \<^verbatim>\<open>(a, b) => a.position - b.position\<close>.\<close>

definition by_position :: "key_row \<Rightarrow> key_row \<Rightarrow> int" where
  "by_position a b = position a - position b"

definition partitionRows :: "key_row list \<Rightarrow> key_row list" where
  "partitionRows rows =
     js_sort by_position (filter (\<lambda>key. kind key = ''partition_key'') rows)"

definition partitionKeys :: "key_row list \<Rightarrow> string list" where
  "partitionKeys rows = map column_name (partitionRows rows)"

definition clusteringRows :: "key_row list \<Rightarrow> key_row list" where
  "clusteringRows rows =
     js_sort by_position (filter (\<lambda>key. kind key = ''clustering'') rows)"

text \<open>\<^verbatim>\<open>key.clustering_order?.toUpperCase() || 'ASC'\<close>\<close>

definition order_of :: "key_row \<Rightarrow> string" where
  "order_of key =
     (case clustering_order key of
        None \<Rightarrow> ''ASC''
      | Some s \<Rightarrow> if toUpperCase s \<noteq> [] then toUpperCase s else ''ASC'')"

text \<open>A clustering key \<^verbatim>\<open>{ name, order }\<close> is the pair (name, order).\<close>

definition clusteringKeys :: "key_row list \<Rightarrow> (string \<times> string) list" where
  "clusteringKeys rows = map (\<lambda>key. (column_name key, order_of key)) (clusteringRows rows)"

text \<open>The column's line, \<^verbatim>\<open>`  ${col.column_name} ${col.type}`\<close>.\<close>

definition column_line :: "column_row \<Rightarrow> string" where
  "column_line col = ''  '' @ col_column_name col @ '' '' @ col_type col"

text \<open>The \<^verbatim>\<open>forEach\<close> over the column rows, with its index and the statement so far.\<close>

fun add_columns :: "column_row list \<Rightarrow> nat \<Rightarrow> nat \<Rightarrow> string \<Rightarrow> string" where
  "add_columns [] index len createStatement = createStatement"
| "add_columns (col # cols) index len createStatement =
     add_columns cols (Suc index) len
       (let s = createStatement @ column_line col
        in if int index < int len - 1 then s @ '',\<newline>'' else s)"

definition add_primary_key :: "string list \<Rightarrow> (string \<times> string) list \<Rightarrow> string \<Rightarrow> string" where
  "add_primary_key pks cks createStatement =
     (if length pks > 0 \<or> length cks > 0 then
        (let s1 = createStatement @ '',\<newline>  PRIMARY KEY ('';
             s2 = (if length pks = 1 then s1 @ hd pks
                   else if length pks > 1 then s1 @ ''('' @ join '', '' pks @ '')''
                   else s1);
             s3 = (if length cks > 0 then s2 @ '', '' @ join '', '' (map fst cks) else s2)
         in s3 @ '')'')
      else createStatement)"

definition add_clustering_order :: "(string \<times> string) list \<Rightarrow> string \<Rightarrow> string" where
  "add_clustering_order cks createStatement =
     (if length cks > 0 then
        (let clusteringOrders = join '', '' (map (\<lambda>key. fst key @ '' '' @ snd key) cks)
         in createStatement @ '' WITH CLUSTERING ORDER BY ('' @ clusteringOrders @ '')'')
      else createStatement)"

definition optionsToInclude :: "string list" where
  "optionsToInclude =
     [''bloom_filter_fp_chance'', ''caching'', ''comment'', ''compaction'',
      ''compression'', ''crc_check_chance'', ''default_time_to_live'',
      ''gc_grace_seconds'', ''read_repair_chance'', ''speculative_retry'']"

subsection \<open>JSON.stringify\<close>

definition hex_digit :: "nat \<Rightarrow> char" where
  "hex_digit n = (if n < 10 then char_of (48 + n) else char_of (87 + n))"

definition json_quote_char :: "char \<Rightarrow> string" where
  "json_quote_char c =
     (let n = (of_char c :: nat) in
      if n = 8 then [CHR 0x5C, CHR ''b'']
      else if n = 9 then [CHR 0x5C, CHR ''t'']
      else if n = 10 then [CHR 0x5C, CHR ''n'']
      else if n = 12 then [CHR 0x5C, CHR ''f'']
      else if n = 13 then [CHR 0x5C, CHR ''r'']
      else if n = 34 then [CHR 0x5C, CHR 0x22]
      else if n = 92 then [CHR 0x5C, CHR 0x5C]
      else if n < 32 then
        [CHR 0x5C, CHR ''u'', CHR ''0'', CHR ''0'', hex_digit (n div 16), hex_digit (n mod 16)]
      else [c])"

definition json_quote :: "string \<Rightarrow> string" where
  "json_quote s = [CHR 0x22] @ concat (map json_quote_char s) @ [CHR 0x22]"

text \<open>
  \<^verbatim>\<open>JSON.stringify(v)\<close> is undefined (\<open>None\<close>) for undefined; an undefined
  array element prints as null and an undefined property is left out. A finite number
  prints as \<^verbatim>\<open>String\<close> prints it, any other number as null. Plain data has no
  \<^verbatim>\<open>toJSON\<close> function and no cycle, so nothing throws.
\<close>

fun JSON_number :: "(rat \<Rightarrow> string) \<Rightarrow> jsnumber \<Rightarrow> string" where
  "JSON_number numstr (Finite q) = Number_toString numstr (Finite q)"
| "JSON_number numstr x = ''null''"

fun JSON_stringify :: "(rat \<Rightarrow> string) \<Rightarrow> jsval \<Rightarrow> string option" where
  "JSON_stringify numstr JUndefined = None"
| "JSON_stringify numstr JNull = Some ''null''"
| "JSON_stringify numstr (JBool b) = Some (if b then ''true'' else ''false'')"
| "JSON_stringify numstr (JNum x) = Some (JSON_number numstr x)"
| "JSON_stringify numstr (JStr s) = Some (json_quote s)"
| "JSON_stringify numstr (JArr vs) =
     Some (''['' @ join '',''
        (map (\<lambda>v. case JSON_stringify numstr v of None \<Rightarrow> ''null'' | Some s \<Rightarrow> s) vs)
        @ '']'')"
| "JSON_stringify numstr (JObj fs) =
     Some (''{'' @ join '',''
        (concat (map (\<lambda>kv. case JSON_stringify numstr (snd kv) of
                               None \<Rightarrow> []
                             | Some s \<Rightarrow> [json_quote (fst kv) @ '':'' @ s]) fs)) @ ''}'')"

subsection \<open>Table options\<close>

text \<open>\<^verbatim>\<open>.replace(/"/g, "'")\<close>\<close>

definition replace_quotes :: "string \<Rightarrow> string" where
  "replace_quotes s = map (\<lambda>c. if c = CHR 0x22 then CHR 0x27 else c) s"

fun is_lower :: "char \<Rightarrow> bool" where
  "is_lower c = (97 \<le> (of_char c :: nat) \<and> (of_char c :: nat) \<le> 122)"

text \<open>\<^verbatim>\<open>key.replace(/_([a-z])/g, (_, letter) => letter.toUpperCase())\<close>\<close>

fun camelCase :: "string \<Rightarrow> string" where
  "camelCase (c # d # cs) =
     (if c = CHR ''_'' \<and> is_lower d then toUpperCase [d] @ camelCase cs
      else c # camelCase (d # cs))"
| "camelCase cs = cs"

text \<open>
  The formatted value; \<open>None\<close> is a throw: calling \<^verbatim>\<open>.replace\<close> on an
  undefined result of \<^verbatim>\<open>JSON.stringify\<close>, or a string conversion that throws.
\<close>

definition formatValue :: "(rat \<Rightarrow> string) \<Rightarrow> jsval \<Rightarrow> string option" where
  "formatValue numstr v =
     (if is_object v then map_option replace_quotes (JSON_stringify numstr v)
      else case v of
             JStr s \<Rightarrow> Some ([CHR 0x27] @ s @ [CHR 0x27])
           | _ \<Rightarrow> js_String numstr v)"

text \<open>\<^verbatim>\<open>tableInfo[key]\<close>\<close>

definition get_field :: "(string \<times> jsval) list \<Rightarrow> string \<Rightarrow> jsval" where
  "get_field row k = (case map_of row k of Some v \<Rightarrow> v | None \<Rightarrow> JUndefined)"

fun format_all :: "(rat \<Rightarrow> string) \<Rightarrow> (string \<times> jsval) list \<Rightarrow> string list option" where
  "format_all numstr [] = Some []"
| "format_all numstr ((k, v) # es) =
     (case formatValue numstr v of
        None \<Rightarrow> None
      | Some formattedValue \<Rightarrow>
          (case format_all numstr es of
             None \<Rightarrow> None
           | Some rest \<Rightarrow> Some ((''  '' @ camelCase k @ '' = '' @ formattedValue) # rest)))"

definition tableOptions :: "(rat \<Rightarrow> string) \<Rightarrow> (string \<times> jsval) list \<Rightarrow> string list option" where
  "tableOptions numstr tableInfo =
     format_all numstr
       (filter (\<lambda>(k, v). k \<in> set optionsToInclude \<and> get_field tableInfo k \<noteq> JNull) tableInfo)"

definition add_options :: "string list \<Rightarrow> (string \<times> string) list \<Rightarrow> string \<Rightarrow> string" where
  "add_options opts cks createStatement =
     (if length opts > 0 then
        (if length cks = 0 then createStatement @ '' WITH\<newline>''
         else createStatement @ '' AND\<newline>'')
          @ join '' AND\<newline>'' opts
      else createStatement)"

subsection \<open>The statement\<close>

text \<open>
  \<open>tableCheck\<close>, \<open>columnsResult\<close> and \<open>keysResult\<close> are the rows the three catalog
  queries returned. The columns come in the order the query delivered them. \<open>numstr\<close>
  is the runtime's number printing (see \<open>Number_toString\<close>).
\<close>

definition execute ::
  "(rat \<Rightarrow> string) \<Rightarrow> string \<Rightarrow> string \<Rightarrow> (string \<times> jsval) list list \<Rightarrow>
     column_row list \<Rightarrow> key_row list \<Rightarrow> result"
where
  "execute numstr keyspaceName tableName tableCheck columnsResult keysResult =
     (case tableCheck of
        [] \<Rightarrow>
          Message (''Table '' @ [CHR 0x27] @ keyspaceName @ ''.'' @ tableName @ [CHR 0x27]
                   @ '' not found.'')
      | tableInfo # _ \<Rightarrow>
          if length columnsResult = 0 then
            Message (''No columns found for table '' @ [CHR 0x27] @ keyspaceName @ ''.''
                     @ tableName @ [CHR 0x27] @ ''.'')
          else
            (let pks = partitionKeys keysResult;
                 cks = clusteringKeys keysResult;
                 s0 = ''CREATE TABLE '' @ keyspaceName @ ''.'' @ tableName @ '' (\<newline>'';
                 s1 = add_columns columnsResult 0 (length columnsResult) s0;
                 s2 = add_primary_key pks cks s1;
                 s3 = s2 @ ''\<newline>)'';
                 s4 = add_clustering_order cks s3
             in case tableOptions numstr tableInfo of
                  None \<Rightarrow> Error
                | Some opts \<Rightarrow> Schema (add_options opts cks s4 @ '';'')))"

text \<open>Key rows on which the classification is evaluated.\<close>

definition ex_keys :: "key_row list" where
  "ex_keys =
     [\<lparr>column_name = ''c2'', kind = ''clustering'', position = 1, clustering_order = Some ''desc''\<rparr>,
      \<lparr>column_name = ''p'', kind = ''partition_key'', position = 0, clustering_order = Some ''none''\<rparr>,
      \<lparr>column_name = ''c1'', kind = ''clustering'', position = 0, clustering_order = None\<rparr>,
      \<lparr>column_name = ''c3'', kind = ''clustering'', position = 2, clustering_order = Some ''''\<rparr>]"

definition dup_keys :: "key_row list" where
  "dup_keys =
     [\<lparr>column_name = ''z'', kind = ''partition_key'', position = 1, clustering_order = None\<rparr>,
      \<lparr>column_name = ''b'', kind = ''partition_key'', position = 0, clustering_order = None\<rparr>,
      \<lparr>column_name = ''y'', kind = ''clustering'', position = 0, clustering_order = None\<rparr>,
      \<lparr>column_name = ''a'', kind = ''partition_key'', position = 0, clustering_order = None\<rparr>,
      \<lparr>column_name = ''x'', kind = ''clustering'', position = 0, clustering_order = None\<rparr>]"

text \<open>A table row on which the options are evaluated.\<close>

definition example_table_row :: "(string \<times> jsval) list" where
  "example_table_row =
     [(''table_name'', JStr ''t''), (''bloom_filter_fp_chance'', JNum (Finite (1 / 100))),
      (''comment'', JStr ''hello''),
      (''gc_grace_seconds'', JNum (Finite 864000)), (''crc_check_chance'', JNull),
      (''caching'', JObj [(''keys'', JStr ''ALL''), (''rows_per_partition'', JStr ''NONE'')]),
      (''id'', JStr ''x'')]"

text \<open>
  The runtime's printing of the two numbers in the examples below that are not integers
  of magnitude up to \<open>2\<^sup>5\<^sup>3\<close>: one hundredth prints as \<^verbatim>\<open>0.01\<close> and
  \<open>10\<^sup>2\<^sup>1\<close> as \<^verbatim>\<open>1e+21\<close>. The examples print no other such number.
\<close>

definition example_numstr :: "rat \<Rightarrow> string" where
  "example_numstr q = (if q = 1 / 100 then ''0.01'' else if q = 10 ^ 21 then ''1e+21'' else ''?'')"

section \<open>Decimal digits\<close>

lemma digit_char_values:
  "digit_char 0 = CHR ''0''" "digit_char 1 = CHR ''1''" "digit_char 2 = CHR ''2''"
  "digit_char 3 = CHR ''3''" "digit_char 4 = CHR ''4''" "digit_char 5 = CHR ''5''"
  "digit_char 6 = CHR ''6''" "digit_char 7 = CHR ''7''" "digit_char 8 = CHR ''8''"
  "digit_char 9 = CHR ''9''"
  by code_simp+

section \<open>Facts about the statement builder\<close>

text \<open>
  Formatting a value never throws: \<^verbatim>\<open>JSON.stringify\<close> is called on objects,
  arrays and null only, where its result is a string, and the values converted by the
  template literal are numbers, booleans and undefined, which always convert. So the
  options are always produced.
\<close>

lemma formatValue_Some: "\<exists>s. formatValue numstr v = Some s"
  by (cases v) (simp_all add: formatValue_def)

lemma format_all_Some: "\<exists>ls. format_all numstr es = Some ls"
proof (induction es)
  case Nil
  show ?case by simp
next
  case (Cons e es)
  obtain k v where e: "e = (k, v)" by (cases e)
  obtain s where s: "formatValue numstr v = Some s" using formatValue_Some by blast
  from Cons obtain ls where "format_all numstr es = Some ls" by blast
  with e s show ?case by simp
qed

lemma tableOptions_Some: "\<exists>opts. tableOptions numstr tableInfo = Some opts"
  unfolding tableOptions_def by (rule format_all_Some)

text \<open>The column loop appends the column lines joined by comma-newline.\<close>

lemma add_columns_join:
  "index + length cols = len \<Longrightarrow>
   add_columns cols index len acc = acc @ join '',\<newline>'' (map column_line cols)"
proof (induction cols arbitrary: index acc)
  case Nil
  show ?case by simp
next
  case (Cons col cols)
  show ?case
  proof (cases cols)
    case Nil
    with Cons.prems show ?thesis by simp
  next
    case (Cons c cs)
    with Cons.prems have lt: "int index < int len - 1" by auto
    from Cons.prems have "Suc index + length cols = len" by simp
    from Cons.IH[OF this]
    have ih: "add_columns cols (Suc index) len (acc @ column_line col @ '',\<newline>'') =
                (acc @ column_line col @ '',\<newline>'') @ join '',\<newline>'' (map column_line cols)" .
    have "add_columns (col # cols) index len acc =
            add_columns cols (Suc index) len (acc @ column_line col @ '',\<newline>'')"
      using lt by simp
    also note ih
    also have "(acc @ column_line col @ '',\<newline>'') @ join '',\<newline>'' (map column_line cols) =
                 acc @ join '',\<newline>'' (map column_line (col # cols))"
      unfolding Cons by simp
    finally show ?thesis .
  qed
qed

text \<open>With a table row and at least one column row, the statement is built in five steps.\<close>

lemma execute_Schema:
  assumes "columnsResult \<noteq> []" and "tableOptions numstr tableInfo = Some opts"
  shows "execute numstr ks t (tableInfo # others) columnsResult keysResult =
     Schema (add_options opts (clusteringKeys keysResult)
       (add_clustering_order (clusteringKeys keysResult)
          (add_primary_key (partitionKeys keysResult) (clusteringKeys keysResult)
             (''CREATE TABLE '' @ ks @ ''.'' @ t @ '' (\<newline>''
                @ join '',\<newline>'' (map column_line columnsResult)) @ ''\<newline>)'')) @ '';'')"
  using assms by (simp add: execute_def Let_def add_columns_join)

section \<open>The synthesized statement on the reference table\<close>

text \<open>
  C1. For keyspace \<open>ks\<close>, table \<open>t\<close>, the columns id uuid, ts timestamp and value double
  in that order, the partition key id at position 0 and the clustering key ts at
  position 0 with order DESC, and a table row that surfaces no option, the statement is
  exactly the text below: two-space indentation, comma-newline separators, the single
  partition key bare, the clustering name without direction inside PRIMARY KEY, the
  direction in the CLUSTERING ORDER BY clause only, and a closing semicolon.
\<close>

theorem synthesize_reference_table:
  assumes "tableOptions numstr tableInfo = Some []"
  shows "execute numstr ''ks'' ''t'' (tableInfo # others)
           [\<lparr>col_column_name = ''id'', col_type = ''uuid'', col_position = 0\<rparr>,
            \<lparr>col_column_name = ''ts'', col_type = ''timestamp'', col_position = 1\<rparr>,
            \<lparr>col_column_name = ''value'', col_type = ''double'', col_position = 2\<rparr>]
           [\<lparr>column_name = ''id'', kind = ''partition_key'', position = 0,
              clustering_order = None\<rparr>,
            \<lparr>column_name = ''ts'', kind = ''clustering'', position = 0,
              clustering_order = Some ''DESC''\<rparr>]
         = Schema ''CREATE TABLE ks.t (\<newline>  id uuid,\<newline>  ts timestamp,\<newline>  value double,\<newline>  PRIMARY KEY (id, ts)\<newline>) WITH CLUSTERING ORDER BY (ts DESC);''"
  using assms
  by (simp add: execute_def partitionKeys_def partitionRows_def clusteringKeys_def
      clusteringRows_def order_of_def toUpperCase_def toUpperCase_char_def
      add_primary_key_def add_clustering_order_def add_options_def column_line_def)

theorem synthesize_reference_table_witness:
  "tableOptions example_numstr [(''keyspace_name'', JStr ''ks''), (''table_name'', JStr ''t''),
                 (''comment'', JNull)] = Some []
   \<and> execute example_numstr ''ks'' ''t''
        [[(''keyspace_name'', JStr ''ks''), (''table_name'', JStr ''t''), (''comment'', JNull)]]
        [\<lparr>col_column_name = ''id'', col_type = ''uuid'', col_position = 0\<rparr>,
         \<lparr>col_column_name = ''ts'', col_type = ''timestamp'', col_position = 1\<rparr>,
         \<lparr>col_column_name = ''value'', col_type = ''double'', col_position = 2\<rparr>]
        [\<lparr>column_name = ''id'', kind = ''partition_key'', position = 0,
           clustering_order = None\<rparr>,
         \<lparr>column_name = ''ts'', kind = ''clustering'', position = 0,
           clustering_order = Some ''DESC''\<rparr>]
      = Schema ''CREATE TABLE ks.t (\<newline>  id uuid,\<newline>  ts timestamp,\<newline>  value double,\<newline>  PRIMARY KEY (id, ts)\<newline>) WITH CLUSTERING ORDER BY (ts DESC);''"
proof -
  have h: "tableOptions example_numstr [(''keyspace_name'', JStr ''ks''), (''table_name'', JStr ''t''),
                 (''comment'', JNull)] = Some []"
    by (simp add: tableOptions_def optionsToInclude_def get_field_def)
  from h synthesize_reference_table [OF h, of "[]"] show ?thesis
    by simp
qed

section \<open>When the synthesis fails\<close>

text \<open>
  C3. Once the table row is found, the synthesis of the statement fails only when there
  is no column row: with zero column rows the result is the message that no columns were
  found for the table, and no statement; with at least one column row the result is a
  statement, which opens with CREATE TABLE and ends with a semicolon. No input leads to
  the generic error result. (Without a table row the result is the message that the
  table was not found, whatever the column rows.)
\<close>

theorem synthesize_fails_only_without_columns:
  "execute numstr ks t (tableInfo # others) [] keys =
     Message (''No columns found for table '' @ [CHR 0x27] @ ks @ ''.'' @ t @ [CHR 0x27] @ ''.'')
   \<and> (cols \<noteq> [] \<longrightarrow>
        (\<exists>body. execute numstr ks t (tableInfo # others) cols keys =
           Schema (''CREATE TABLE '' @ ks @ ''.'' @ t @ '' (\<newline>'' @ body @ '';'')))
   \<and> execute numstr ks t tableCheck cols keys \<noteq> Error
   \<and> execute numstr ks t [] cols keys =
       Message (''Table '' @ [CHR 0x27] @ ks @ ''.'' @ t @ [CHR 0x27] @ '' not found.'')"
proof (intro conjI impI)
  show "execute numstr ks t [] cols keys =
       Message (''Table '' @ [CHR 0x27] @ ks @ ''.'' @ t @ [CHR 0x27] @ '' not found.'')"
    by (simp add: execute_def)
next
  show "execute numstr ks t (tableInfo # others) [] keys =
     Message (''No columns found for table '' @ [CHR 0x27] @ ks @ ''.'' @ t @ [CHR 0x27] @ ''.'')"
    by (simp add: execute_def)
next
  assume cols: "cols \<noteq> []"
  obtain opts where opts: "tableOptions numstr tableInfo = Some opts"
    using tableOptions_Some by blast
  show "\<exists>body. execute numstr ks t (tableInfo # others) cols keys =
           Schema (''CREATE TABLE '' @ ks @ ''.'' @ t @ '' (\<newline>'' @ body @ '';'')"
    unfolding execute_Schema[OF cols opts]
    by (auto simp: add_options_def add_clustering_order_def add_primary_key_def Let_def)
next
  show "execute numstr ks t tableCheck cols keys \<noteq> Error"
  proof (cases tableCheck)
    case Nil
    then show ?thesis by (simp add: execute_def)
  next
    case (Cons tableInfo others)
    obtain opts where opts: "tableOptions numstr tableInfo = Some opts"
      using tableOptions_Some by blast
    show ?thesis
    proof (cases "cols = []")
      case True
      with Cons show ?thesis by (simp add: execute_def)
    next
      case False
      show ?thesis unfolding Cons execute_Schema[OF False opts] by simp
    qed
  qed
qed


theorem synthesize_fails_only_without_columns_witness:
  "execute example_numstr ''ks'' ''t'' [[(''comment'', JNull)]] [] [] =
     Message (''No columns found for table '' @ [CHR 0x27] @ ''ks'' @ ''.'' @ ''t'' @ [CHR 0x27] @ ''.'')
   \<and> (\<exists>body. execute example_numstr ''ks'' ''t'' [[(''comment'', JNull)]]
          [\<lparr>col_column_name = ''id'', col_type = ''uuid'', col_position = 0\<rparr>] [] =
        Schema (''CREATE TABLE '' @ ''ks'' @ ''.'' @ ''t'' @ '' (\<newline>'' @ body @ '';''))
   \<and> execute example_numstr ''ks'' ''t'' []
         [\<lparr>col_column_name = ''id'', col_type = ''uuid'', col_position = 0\<rparr>] [] \<noteq> Error
   \<and> execute example_numstr ''ks'' ''t'' []
         [\<lparr>col_column_name = ''id'', col_type = ''uuid'', col_position = 0\<rparr>] [] =
       Message (''Table '' @ [CHR 0x27] @ ''ks'' @ ''.'' @ ''t'' @ [CHR 0x27] @ '' not found.'')"
  using synthesize_fails_only_without_columns
    [of example_numstr "''ks''" "''t''" "[(''comment'', JNull)]" "[]" "[]"
        "[\<lparr>col_column_name = ''id'', col_type = ''uuid'', col_position = 0\<rparr>]" "[]"]
  by simp

section \<open>The PRIMARY KEY clause\<close>

text \<open>
  C5. With two or more partition keys and no clustering key, the statement has the
  PRIMARY KEY clause with the partition keys comma-joined in their own parentheses
  inside the outer ones, as in \<^verbatim>\<open>PRIMARY KEY ((a, b))\<close>, and the clustering-order
  step adds nothing: the closing parenthesis of the column list is followed by the
  options, if any, and the semicolon.
\<close>

theorem composite_partition_key:
  assumes "2 \<le> length (partitionKeys keys)" and "clusteringKeys keys = []" and "cols \<noteq> []"
  shows "\<exists>opts. tableOptions numstr tableInfo = Some opts
     \<and> execute numstr ks t (tableInfo # others) cols keys =
         Schema (''CREATE TABLE '' @ ks @ ''.'' @ t @ '' (\<newline>''
           @ join '',\<newline>'' (map column_line cols)
           @ '',\<newline>  PRIMARY KEY (('' @ join '', '' (partitionKeys keys) @ ''))''
           @ ''\<newline>)''
           @ (if opts = [] then [] else '' WITH\<newline>'' @ join '' AND\<newline>'' opts)
           @ '';'')
     \<and> add_clustering_order (clusteringKeys keys) s = s"
proof -
  obtain opts where opts: "tableOptions numstr tableInfo = Some opts"
    using tableOptions_Some by blast
  have pk: "add_primary_key (partitionKeys keys) [] s0 =
              s0 @ '',\<newline>  PRIMARY KEY (('' @ join '', '' (partitionKeys keys) @ ''))''" for s0
    using assms(1) by (auto simp: add_primary_key_def)
  have co: "add_clustering_order [] s1 = s1" for s1
    by (simp add: add_clustering_order_def)
  have op: "add_options opts [] s2 =
              s2 @ (if opts = [] then [] else '' WITH\<newline>'' @ join '' AND\<newline>'' opts)" for s2
    by (simp add: add_options_def)
  show ?thesis
    using opts by (simp add: execute_Schema[OF assms(3) opts] assms(2) pk co op)
qed

theorem composite_partition_key_witness:
  "2 \<le> length (partitionKeys
       [\<lparr>column_name = ''b'', kind = ''partition_key'', position = 1, clustering_order = None\<rparr>,
        \<lparr>column_name = ''a'', kind = ''partition_key'', position = 0, clustering_order = None\<rparr>])
   \<and> clusteringKeys
       [\<lparr>column_name = ''b'', kind = ''partition_key'', position = 1, clustering_order = None\<rparr>,
        \<lparr>column_name = ''a'', kind = ''partition_key'', position = 0, clustering_order = None\<rparr>] = []
   \<and> execute example_numstr ''ks'' ''t'' [[(''comment'', JNull)]]
        [\<lparr>col_column_name = ''a'', col_type = ''int'', col_position = 0\<rparr>,
         \<lparr>col_column_name = ''b'', col_type = ''text'', col_position = 1\<rparr>]
        [\<lparr>column_name = ''b'', kind = ''partition_key'', position = 1, clustering_order = None\<rparr>,
         \<lparr>column_name = ''a'', kind = ''partition_key'', position = 0, clustering_order = None\<rparr>]
     = Schema ''CREATE TABLE ks.t (\<newline>  a int,\<newline>  b text,\<newline>  PRIMARY KEY ((a, b))\<newline>);''"
proof -
  let ?keys = "[\<lparr>column_name = ''b'', kind = ''partition_key'', position = 1, clustering_order = None\<rparr>,
        \<lparr>column_name = ''a'', kind = ''partition_key'', position = 0, clustering_order = None\<rparr>]"
  let ?cols = "[\<lparr>col_column_name = ''a'', col_type = ''int'', col_position = 0\<rparr>,
         \<lparr>col_column_name = ''b'', col_type = ''text'', col_position = 1\<rparr>]"
  have pks: "partitionKeys ?keys = [''a'', ''b'']"
    by (simp add: partitionKeys_def partitionRows_def by_position_def)
  have h1: "2 \<le> length (partitionKeys ?keys)"
    by (simp add: pks)
  have h2: "clusteringKeys ?keys = []"
    by (simp add: clusteringKeys_def clusteringRows_def)
  have h3: "?cols \<noteq> []" by simp
  have opts: "tableOptions example_numstr [(''comment'', JNull)] = Some []"
    by (simp add: tableOptions_def optionsToInclude_def get_field_def)
  from composite_partition_key [OF h1 h2 h3, of example_numstr "[(''comment'', JNull)]" "''ks''" "''t''" "[]" "[]"]
  have "execute example_numstr ''ks'' ''t'' [[(''comment'', JNull)]] ?cols ?keys
     = Schema ''CREATE TABLE ks.t (\<newline>  a int,\<newline>  b text,\<newline>  PRIMARY KEY ((a, b))\<newline>);''"
    by (simp add: opts pks column_line_def)
  with h1 h2 show ?thesis by simp
qed

text \<open>
  C10. With no partition key and at least one clustering key, the statement still has a
  PRIMARY KEY clause, whose partition-key group is empty: \<^verbatim>\<open>PRIMARY KEY (\<close> is
  followed at once by a comma, a space and the clustering-key names, as in
  \<^verbatim>\<open>PRIMARY KEY (, ts)\<close>.
\<close>

theorem clustering_without_partition_key:
  assumes "partitionKeys keys = []" and "clusteringKeys keys \<noteq> []" and "cols \<noteq> []"
  shows "\<exists>opts. tableOptions numstr tableInfo = Some opts
     \<and> execute numstr ks t (tableInfo # others) cols keys =
         Schema (''CREATE TABLE '' @ ks @ ''.'' @ t @ '' (\<newline>''
           @ join '',\<newline>'' (map column_line cols)
           @ '',\<newline>  PRIMARY KEY ('' @ '', '' @ join '', '' (map fst (clusteringKeys keys)) @ '')''
           @ ''\<newline>)''
           @ '' WITH CLUSTERING ORDER BY (''
           @ join '', '' (map (\<lambda>key. fst key @ '' '' @ snd key) (clusteringKeys keys)) @ '')''
           @ (if opts = [] then [] else '' AND\<newline>'' @ join '' AND\<newline>'' opts)
           @ '';'')"
proof -
  obtain opts where opts: "tableOptions numstr tableInfo = Some opts"
    using tableOptions_Some by blast
  let ?cks = "clusteringKeys keys"
  have pk: "add_primary_key [] ?cks s0 =
              s0 @ '',\<newline>  PRIMARY KEY ('' @ '', '' @ join '', '' (map fst ?cks) @ '')''" for s0
    using assms(2) by (simp add: add_primary_key_def)
  have co: "add_clustering_order ?cks s1 =
              s1 @ '' WITH CLUSTERING ORDER BY (''
                 @ join '', '' (map (\<lambda>key. fst key @ '' '' @ snd key) ?cks) @ '')''" for s1
    using assms(2) by (simp add: add_clustering_order_def)
  have op: "add_options opts ?cks s2 =
              s2 @ (if opts = [] then [] else '' AND\<newline>'' @ join '' AND\<newline>'' opts)" for s2
    using assms(2) by (simp add: add_options_def)
  show ?thesis
    using opts by (simp add: execute_Schema[OF assms(3) opts] assms(1) pk co op)
qed

theorem clustering_without_partition_key_witness:
  "partitionKeys
       [\<lparr>column_name = ''ts'', kind = ''clustering'', position = 0, clustering_order = None\<rparr>] = []
   \<and> clusteringKeys
       [\<lparr>column_name = ''ts'', kind = ''clustering'', position = 0, clustering_order = None\<rparr>] \<noteq> []
   \<and> execute example_numstr ''ks'' ''t'' [[(''comment'', JNull)]]
        [\<lparr>col_column_name = ''ts'', col_type = ''timestamp'', col_position = 0\<rparr>]
        [\<lparr>column_name = ''ts'', kind = ''clustering'', position = 0, clustering_order = None\<rparr>]
     = Schema ''CREATE TABLE ks.t (\<newline>  ts timestamp,\<newline>  PRIMARY KEY (, ts)\<newline>) WITH CLUSTERING ORDER BY (ts ASC);''"
proof -
  let ?keys = "[\<lparr>column_name = ''ts'', kind = ''clustering'', position = 0, clustering_order = None\<rparr>]"
  let ?cols = "[\<lparr>col_column_name = ''ts'', col_type = ''timestamp'', col_position = 0\<rparr>]"
  have h1: "partitionKeys ?keys = []"
    by (simp add: partitionKeys_def partitionRows_def)
  have cks: "clusteringKeys ?keys = [(''ts'', ''ASC'')]"
    by (simp add: clusteringKeys_def clusteringRows_def order_of_def)
  have h2: "clusteringKeys ?keys \<noteq> []"
    by (simp add: cks)
  have h3: "?cols \<noteq> []" by simp
  have opts: "tableOptions example_numstr [(''comment'', JNull)] = Some []"
    by (simp add: tableOptions_def optionsToInclude_def get_field_def)
  from clustering_without_partition_key [OF h1 h2 h3, of example_numstr "[(''comment'', JNull)]" "''ks''" "''t''" "[]"]
  have "execute example_numstr ''ks'' ''t'' [[(''comment'', JNull)]] ?cols ?keys
     = Schema ''CREATE TABLE ks.t (\<newline>  ts timestamp,\<newline>  PRIMARY KEY (, ts)\<newline>) WITH CLUSTERING ORDER BY (ts ASC);''"
    by (simp add: opts cks column_line_def)
  with h1 h2 show ?thesis by simp
qed

section \<open>Key classification\<close>

text \<open>
  The sort puts the rows in ascending order of position, keeps every row, and leaves
  rows of equal position in the order they had.
\<close>

lemma mset_insert_sorted: "mset (insert_sorted cmp x ys) = add_mset x (mset ys)"
  by (induction ys) simp_all

lemma mset_js_sort: "mset (js_sort cmp xs) = mset xs"
  by (induction xs) (simp_all add: mset_insert_sorted)

lemma set_insert_sorted: "set (insert_sorted cmp x ys) = insert x (set ys)"
  using mset_insert_sorted[of cmp x ys, THEN arg_cong, of set_mset] by simp

lemma sorted_insert_sorted:
  "sorted (map position ys) \<Longrightarrow> sorted (map position (insert_sorted by_position x ys))"
proof (induction ys)
  case Nil
  show ?case by simp
next
  case (Cons y ys)
  show ?case
  proof (cases "by_position x y \<le> 0")
    case True
    then have "position x \<le> position y" by (simp add: by_position_def)
    with Cons.prems show ?thesis using True by auto
  next
    case False
    then have "position y \<le> position x" by (simp add: by_position_def)
    with Cons show ?thesis using False by (auto simp: set_insert_sorted)
  qed
qed

lemma sorted_js_sort: "sorted (map position (js_sort by_position xs))"
  by (induction xs) (simp_all add: sorted_insert_sorted)

lemma filter_insert_sorted:
  "filter (\<lambda>key. position key = p) (insert_sorted by_position x ys) =
     (if position x = p then x # filter (\<lambda>key. position key = p) ys
      else filter (\<lambda>key. position key = p) ys)"
  by (induction ys) (auto simp: by_position_def)

lemma filter_js_sort:
  "filter (\<lambda>key. position key = p) (js_sort by_position xs) =
     filter (\<lambda>key. position key = p) xs"
  by (induction xs) (simp_all add: filter_insert_sorted)

lemma toUpperCase_Nil: "toUpperCase s = [] \<longleftrightarrow> s = []"
  by (simp add: toUpperCase_def)

lemma order_of_cases:
  "order_of key =
     (case clustering_order key of
        None \<Rightarrow> ''ASC''
      | Some s \<Rightarrow> if s = [] then ''ASC'' else toUpperCase s)"
  by (simp add: order_of_def toUpperCase_Nil split: option.splits)

text \<open>
  C7, as the code has it. The partition keys are the names of the rows of kind
  \<^verbatim>\<open>partition_key\<close>, the clustering keys the (name, order) pairs of the rows of
  kind \<^verbatim>\<open>clustering\<close>, each group sorted ascending by position and holding exactly
  the rows of its kind. The order is the row's clustering-order string uppercased when
  the field is present and not empty, whatever the string is, and ASC when the field is
  absent or the empty string.
\<close>

theorem key_classification:
  "partitionKeys rows = map column_name (partitionRows rows)
   \<and> clusteringKeys rows =
       map (\<lambda>key. (column_name key,
                   case clustering_order key of
                     None \<Rightarrow> ''ASC''
                   | Some s \<Rightarrow> if s = [] then ''ASC'' else toUpperCase s))
           (clusteringRows rows)
   \<and> sorted (map position (partitionRows rows))
   \<and> sorted (map position (clusteringRows rows))
   \<and> mset (partitionRows rows) = mset (filter (\<lambda>key. kind key = ''partition_key'') rows)
   \<and> mset (clusteringRows rows) = mset (filter (\<lambda>key. kind key = ''clustering'') rows)"
proof (intro conjI)
  show "partitionKeys rows = map column_name (partitionRows rows)"
    by (simp add: partitionKeys_def)
  show "clusteringKeys rows =
       map (\<lambda>key. (column_name key,
                   case clustering_order key of
                     None \<Rightarrow> ''ASC''
                   | Some s \<Rightarrow> if s = [] then ''ASC'' else toUpperCase s))
           (clusteringRows rows)"
    unfolding clusteringKeys_def by (rule map_cong) (simp_all add: order_of_cases)
  show "sorted (map position (partitionRows rows))"
    unfolding partitionRows_def by (rule sorted_js_sort)
  show "sorted (map position (clusteringRows rows))"
    unfolding clusteringRows_def by (rule sorted_js_sort)
  show "mset (partitionRows rows) = mset (filter (\<lambda>key. kind key = ''partition_key'') rows)"
    unfolding partitionRows_def by (rule mset_js_sort)
  show "mset (clusteringRows rows) = mset (filter (\<lambda>key. kind key = ''clustering'') rows)"
    unfolding clusteringRows_def by (rule mset_js_sort)
qed

theorem key_classification_witness:
  "partitionKeys ex_keys = [''p'']
   \<and> clusteringKeys ex_keys = [(''c1'', ''ASC''), (''c2'', ''DESC''), (''c3'', ''ASC'')]
   \<and> map position (clusteringRows ex_keys) = [0, 1, 2]"
proof -
  have cr: "clusteringRows ex_keys = [ex_keys ! 2, ex_keys ! 0, ex_keys ! 3]"
    by (simp add: clusteringRows_def ex_keys_def by_position_def)
  have pr: "partitionRows ex_keys = [ex_keys ! 1]"
    by (simp add: partitionRows_def ex_keys_def)
  have up: "toUpperCase ''desc'' = ''DESC''"
    by code_simp
  from key_classification [of ex_keys] show ?thesis
    unfolding cr pr by (simp add: ex_keys_def up)
qed

text \<open>
  An order string that is neither ASC nor DESC is not replaced by ASC: it is uppercased
  like any other.
\<close>

theorem key_order_unrecognized_counterexample:
  "clusteringKeys
     [\<lparr>column_name = ''c'', kind = ''clustering'', position = 0,
        clustering_order = Some ''sideways''\<rparr>] = [(''c'', ''SIDEWAYS'')]
   \<and> clusteringKeys
     [\<lparr>column_name = ''c'', kind = ''clustering'', position = 0,
        clustering_order = Some ''sideways''\<rparr>] \<noteq> [(''c'', ''ASC'')]"
proof -
  have up: "toUpperCase ''sideways'' = ''SIDEWAYS''"
    by code_simp
  show ?thesis
    by (simp add: clusteringKeys_def clusteringRows_def order_of_def up)
qed

text \<open>
  C9. Rows of one kind that share a position come out in the order they came in: for
  each position, the sorted rows at that position are the input rows of that kind at
  that position, in input order. The names and pairs returned are read off the sorted
  rows, so the result is the same on every run.
\<close>

theorem classify_stable:
  "filter (\<lambda>key. position key = p) (partitionRows rows) =
     filter (\<lambda>key. position key = p) (filter (\<lambda>key. kind key = ''partition_key'') rows)
   \<and> filter (\<lambda>key. position key = p) (clusteringRows rows) =
     filter (\<lambda>key. position key = p) (filter (\<lambda>key. kind key = ''clustering'') rows)
   \<and> partitionKeys rows = map column_name (partitionRows rows)
   \<and> map fst (clusteringKeys rows) = map column_name (clusteringRows rows)"
  by (simp add: partitionRows_def clusteringRows_def filter_js_sort partitionKeys_def
      clusteringKeys_def comp_def)

theorem classify_stable_witness:
  "map column_name (filter (\<lambda>key. position key = 0) (partitionRows dup_keys)) = [''b'', ''a'']
   \<and> map column_name (filter (\<lambda>key. position key = 0) (clusteringRows dup_keys)) = [''y'', ''x'']
   \<and> partitionKeys dup_keys = [''b'', ''a'', ''z'']
   \<and> map fst (clusteringKeys dup_keys) = [''y'', ''x'']"
proof -
  have pr: "partitionRows dup_keys = [dup_keys ! 1, dup_keys ! 3, dup_keys ! 0]"
    by (simp add: partitionRows_def dup_keys_def by_position_def)
  have cr: "clusteringRows dup_keys = [dup_keys ! 2, dup_keys ! 4]"
    by (simp add: clusteringRows_def dup_keys_def by_position_def)
  from classify_stable [of 0 dup_keys] show ?thesis
    unfolding pr cr by (simp add: dup_keys_def)
qed

section \<open>Type resolution\<close>

lemma js_get_defined_object:
  "js_get raw k \<noteq> JUndefined \<Longrightarrow> truthy raw \<and> \<not> is_string raw \<and> is_object raw"
  by (cases raw) simp_all

lemma truthy_js_get: "truthy (js_get v k) \<Longrightarrow> truthy v"
  by (cases v) simp_all

lemma is_array_js_get: "is_array (js_get v k) \<Longrightarrow> truthy v"
  by (cases v) simp_all

lemma getColumnTypeString_string:
  "getColumnTypeString stack dataTypes numstr (JStr s) = JStr (if s = [] then ''unknown'' else s)"
  by (subst getColumnTypeString.simps) simp

lemma getColumnTypeString_code:
  assumes "js_get raw ''code'' \<noteq> JUndefined"
  shows "getColumnTypeString stack dataTypes numstr raw =
     (case find (\<lambda>(name, code). js_get raw ''code'' = JNum (Finite (of_int code))) dataTypes of
        Some (name, code) \<Rightarrow> JStr (toLowerCase name)
      | None \<Rightarrow>
          (case js_String numstr (js_get raw ''code'') of
             None \<Rightarrow> JStr ''unknown''
           | Some s \<Rightarrow> JStr (''type_'' @ s)))"
  using js_get_defined_object[OF assms] assms
  by (subst getColumnTypeString.simps) (simp add: Let_def split: option.splits)

lemma find_code_not_number:
  assumes "\<not> is_number v"
  shows "find (\<lambda>(name, code). v = JNum (Finite (of_int code))) dataTypes = None"
  using assms by (auto simp: find_None_iff)

text \<open>
  C4. A descriptor whose \<^verbatim>\<open>code\<close> property is a number resolves through the
  code-to-name table to the lowercased name of the first entry with that code, and to
  \<^verbatim>\<open>type_\<close> followed by the number as JavaScript prints it when no entry has it,
  whatever other properties (name, info) the descriptor carries: the code test comes
  before the name, map, list, set and tuple tests. An integer code of magnitude up to
  \<open>2\<^sup>5\<^sup>3\<close> prints as its decimal digits. A plain string is returned before any of
  this (the empty string, which counts as false, resolves to unknown).
\<close>

theorem resolve_code:
  assumes "js_get raw ''code'' = JNum x"
  shows "getColumnTypeString stack dataTypes numstr raw =
     (case find (\<lambda>(name, code). x = Finite (of_int code)) dataTypes of
        Some (name, code) \<Rightarrow> JStr (toLowerCase name)
      | None \<Rightarrow> JStr (''type_'' @ Number_toString numstr x))
    \<and> (\<bar>c\<bar> \<le> 2 ^ 53 \<longrightarrow> Number_toString numstr (Finite (of_int c)) = show_int c)
    \<and> getColumnTypeString stack dataTypes numstr (JStr s) =
        JStr (if s = [] then ''unknown'' else s)"
proof (intro conjI impI)
  have "js_get raw ''code'' \<noteq> JUndefined" using assms by simp
  from getColumnTypeString_code[OF this, of stack dataTypes numstr]
  show "getColumnTypeString stack dataTypes numstr raw =
     (case find (\<lambda>(name, code). x = Finite (of_int code)) dataTypes of
        Some (name, code) \<Rightarrow> JStr (toLowerCase name)
      | None \<Rightarrow> JStr (''type_'' @ Number_toString numstr x))"
    unfolding assms by (simp split: option.splits)
next
  assume "\<bar>c\<bar> \<le> 2 ^ 53"
  then have "\<bar>(of_int c :: rat)\<bar> \<le> 2 ^ 53"
    by (metis of_int_abs of_int_le_iff of_int_numeral of_int_power)
  then show "Number_toString numstr (Finite (of_int c)) = show_int c"
    by simp
next
  show "getColumnTypeString stack dataTypes numstr (JStr s) =
        JStr (if s = [] then ''unknown'' else s)"
    by (rule getColumnTypeString_string)
qed

theorem resolve_code_witness:
  "js_get (JObj [(''code'', JNum (Finite 13)), (''name'', JStr ''x''),
                 (''info'', JObj [(''elementType'', JStr ''int'')])]) ''code'' = JNum (Finite 13)
   \<and> getColumnTypeString 0 [(''Text'', 10), (''VarChar'', 13)] example_numstr
        (JObj [(''code'', JNum (Finite 13)), (''name'', JStr ''x''),
               (''info'', JObj [(''elementType'', JStr ''int'')])]) = JStr ''varchar''
   \<and> getColumnTypeString 0 driver_dataTypes example_numstr
        (JObj [(''code'', JNum (Finite 13)), (''name'', JStr ''x''),
               (''info'', JObj [(''elementType'', JStr ''int'')])]) = JStr ''varchar''
   \<and> js_get (JObj [(''code'', JNum (Finite 99)), (''name'', JStr ''x'')]) ''code'' =
       JNum (Finite 99)
   \<and> getColumnTypeString 0 driver_dataTypes example_numstr
        (JObj [(''code'', JNum (Finite 99)), (''name'', JStr ''x'')]) = JStr ''type_99''
   \<and> js_get (JObj [(''code'', JNum (Finite (10 ^ 21)))]) ''code'' = JNum (Finite (10 ^ 21))
   \<and> getColumnTypeString 0 driver_dataTypes example_numstr
        (JObj [(''code'', JNum (Finite (10 ^ 21)))]) = JStr ''type_1e+21''
   \<and> \<bar>99 :: int\<bar> \<le> 2 ^ 53
   \<and> Number_toString example_numstr (Finite 99) = ''99''
   \<and> getColumnTypeString 0 driver_dataTypes example_numstr (JStr ''text'') = JStr ''text''"
proof -
  let ?a = "JObj [(''code'', JNum (Finite 13)), (''name'', JStr ''x''),
                  (''info'', JObj [(''elementType'', JStr ''int'')])]"
  let ?b = "JObj [(''code'', JNum (Finite 99)), (''name'', JStr ''x'')]"
  let ?c = "JObj [(''code'', JNum (Finite (10 ^ 21)))]"
  have ha: "js_get ?a ''code'' = JNum (Finite 13)"
    by simp
  have hb: "js_get ?b ''code'' = JNum (Finite 99)"
    by simp
  have hc: "js_get ?c ''code'' = JNum (Finite (10 ^ 21))"
    by simp
  have small: "\<bar>99 :: int\<bar> \<le> 2 ^ 53"
    by simp
  have lower: "toLowerCase ''VarChar'' = ''varchar''" "toLowerCase ''varchar'' = ''varchar''"
    "toLowerCase ''text'' = ''text''"
    by code_simp+
  have digits: "show_int 99 = ''99''"
    by (simp add: show_int_def show_nat.simps digit_char_values)
  have a1: "getColumnTypeString 0 [(''Text'', 10), (''VarChar'', 13)] example_numstr ?a =
              JStr ''varchar''"
    using resolve_code [OF ha, of 0 "[(''Text'', 10), (''VarChar'', 13)]" example_numstr 99 "''text''"]
    by (simp add: lower)
  have a2: "getColumnTypeString 0 driver_dataTypes example_numstr ?a = JStr ''varchar''"
    using resolve_code [OF ha, of 0 driver_dataTypes example_numstr 99 "''text''"]
    by (simp add: driver_dataTypes_def lower)
  have b1: "getColumnTypeString 0 driver_dataTypes example_numstr ?b = JStr ''type_99''"
    and n1: "Number_toString example_numstr (Finite 99) = ''99''"
    and s1: "getColumnTypeString 0 driver_dataTypes example_numstr (JStr ''text'') = JStr ''text''"
    using resolve_code [OF hb, of 0 driver_dataTypes example_numstr 99 "''text''"] small
    by (simp_all add: driver_dataTypes_def digits)
  have c1: "getColumnTypeString 0 driver_dataTypes example_numstr ?c = JStr ''type_1e+21''"
    using resolve_code [OF hc, of 0 driver_dataTypes example_numstr 99 "''text''"]
    by (simp add: driver_dataTypes_def example_numstr_def)
  from ha a1 a2 hb b1 hc c1 small n1 s1 show ?thesis
    by (intro conjI)
qed

text \<open>
  C2, as the code has it. Resolution is total and raises nothing: what the body throws,
  the \<^verbatim>\<open>catch\<close> branch turns into unknown. A descriptor of no recognised shape
  resolves to unknown when it counts as false (undefined, null, false, 0, not a number) or
  when its string conversion throws. With a \<^verbatim>\<open>code\<close> property that is not a number
  it resolves to \<^verbatim>\<open>type_\<close> followed by the code's string conversion. Otherwise it
  resolves to its own string conversion, the last resort of the function: a plain object
  prints as \<^verbatim>\<open>[object Object]\<close>, a number or a boolean as itself.
\<close>

theorem resolve_unrecognized:
  assumes "unrecognized raw"
  shows "getColumnTypeString stack dataTypes numstr raw =
     (if \<not> truthy raw then JStr ''unknown''
      else if js_get raw ''code'' \<noteq> JUndefined then
        (case js_String numstr (js_get raw ''code'') of
           None \<Rightarrow> JStr ''unknown''
         | Some s \<Rightarrow> JStr (''type_'' @ s))
      else
        (case js_String numstr raw of
           None \<Rightarrow> JStr ''unknown''
         | Some s \<Rightarrow> JStr s))"
proof -
  from assms have ns: "\<not> is_string raw"
    and c: "\<not> is_number (js_get raw ''code'')"
    and n: "\<not> truthy (js_get raw ''name'')"
    and m: "\<not> (truthy (js_get (js_get raw ''info'') ''keyType'')
             \<and> truthy (js_get (js_get raw ''info'') ''valueType''))"
    and l: "\<not> truthy (js_get (js_get raw ''info'') ''elementType'')"
    and st: "\<not> is_array (js_get raw ''info'')"
    and tu: "\<not> is_array (js_get (js_get raw ''info'') ''types'')"
    by (simp_all add: unrecognized_def)
  show ?thesis
  proof (cases "js_get raw ''code'' = JUndefined")
    case True
    show ?thesis
      by (subst getColumnTypeString.simps)
        (auto simp: ns True n m l st tu split: option.splits)
  next
    case False
    from js_get_defined_object[OF False] have "truthy raw" by simp
    with False show ?thesis
      unfolding getColumnTypeString_code[OF False]
      by (simp add: find_code_not_number[OF c])
  qed
qed

theorem resolve_unrecognized_witness:
  "unrecognized JNull
   \<and> getColumnTypeString 0 driver_dataTypes example_numstr JNull = JStr ''unknown''
   \<and> unrecognized (JObj [(''precision'', JNum (Finite 3))])
   \<and> getColumnTypeString 0 driver_dataTypes example_numstr
        (JObj [(''precision'', JNum (Finite 3))]) = JStr ''[object Object]''
   \<and> unrecognized (JObj [(''toString'', JNum (Finite 1))])
   \<and> getColumnTypeString 0 driver_dataTypes example_numstr
        (JObj [(''toString'', JNum (Finite 1))]) = JStr ''unknown''
   \<and> unrecognized (JObj [(''code'', JNull)])
   \<and> getColumnTypeString 0 driver_dataTypes example_numstr
        (JObj [(''code'', JNull)]) = JStr ''type_null''
   \<and> unrecognized (JNum (Finite (10 ^ 21)))
   \<and> getColumnTypeString 0 driver_dataTypes example_numstr
        (JNum (Finite (10 ^ 21))) = JStr ''1e+21''"
proof -
  have h1: "unrecognized JNull"
    by (simp add: unrecognized_def)
  have h2: "unrecognized (JObj [(''precision'', JNum (Finite 3))])"
    by (simp add: unrecognized_def)
  have h3: "unrecognized (JObj [(''toString'', JNum (Finite 1))])"
    by (simp add: unrecognized_def)
  have h4: "unrecognized (JObj [(''code'', JNull)])"
    by (simp add: unrecognized_def)
  have h5: "unrecognized (JNum (Finite (10 ^ 21)))"
    by (simp add: unrecognized_def)
  have v1: "getColumnTypeString 0 driver_dataTypes example_numstr JNull = JStr ''unknown''"
    using resolve_unrecognized [OF h1, of 0 driver_dataTypes example_numstr] by simp
  have v2: "getColumnTypeString 0 driver_dataTypes example_numstr
        (JObj [(''precision'', JNum (Finite 3))]) = JStr ''[object Object]''"
    using resolve_unrecognized [OF h2, of 0 driver_dataTypes example_numstr] by simp
  have v3: "getColumnTypeString 0 driver_dataTypes example_numstr
        (JObj [(''toString'', JNum (Finite 1))]) = JStr ''unknown''"
    using resolve_unrecognized [OF h3, of 0 driver_dataTypes example_numstr] by simp
  have v4: "getColumnTypeString 0 driver_dataTypes example_numstr
        (JObj [(''code'', JNull)]) = JStr ''type_null''"
    using resolve_unrecognized [OF h4, of 0 driver_dataTypes example_numstr] by simp
  have v5: "getColumnTypeString 0 driver_dataTypes example_numstr
        (JNum (Finite (10 ^ 21))) = JStr ''1e+21''"
    using resolve_unrecognized [OF h5, of 0 driver_dataTypes example_numstr]
    by (simp add: example_numstr_def)
  from h1 v1 h2 v2 h3 v3 h4 v4 h5 v5 show ?thesis
    by (intro conjI)
qed

text \<open>
  The empty object has none of the recognised shapes and does not resolve to unknown.
\<close>

theorem resolve_unrecognized_counterexample:
  "unrecognized (JObj [])
   \<and> getColumnTypeString 0 driver_dataTypes example_numstr (JObj []) = JStr ''[object Object]''
   \<and> getColumnTypeString 0 driver_dataTypes example_numstr (JObj []) \<noteq> JStr ''unknown''"
proof -
  have "getColumnTypeString 0 driver_dataTypes example_numstr (JObj []) = JStr ''[object Object]''"
    by (subst getColumnTypeString.simps) simp
  then show ?thesis by (simp add: unrecognized_def)
qed

lemma find_name_nonempty:
  assumes "[] \<notin> fst ` set dataTypes" and "find P dataTypes = Some (name, code)"
  shows "name \<noteq> []"
proof
  assume "name = []"
  moreover from assms(2) have "(name, code) \<in> set dataTypes"
    by (auto simp: find_Some_iff)
  ultimately have "([], code) \<in> set dataTypes" by simp
  then have "fst ([], code) \<in> fst ` set dataTypes" by (rule imageI)
  then have "[] \<in> fst ` set dataTypes" by (simp only: fst_conv)
  with assms(1) show False by contradiction
qed

lemma toLowerCase_Nil: "toLowerCase s = [] \<longleftrightarrow> s = []"
  by (simp add: toLowerCase_def)

text \<open>
  With no code and no name, a descriptor of map, list, set or tuple shape resolves to a
  rendered collection type, or to unknown when something in the rendering throws.
\<close>

lemma collection_result:
  assumes "js_get raw ''code'' = JUndefined" and "\<not> truthy (js_get raw ''name'')"
    and "(truthy (js_get (js_get raw ''info'') ''keyType'')
               \<and> truthy (js_get (js_get raw ''info'') ''valueType''))
           \<or> truthy (js_get (js_get raw ''info'') ''elementType'')
           \<or> is_array (js_get raw ''info'')
           \<or> is_array (js_get (js_get raw ''info'') ''types'')"
  shows "\<exists>s. s \<noteq> [] \<and> getColumnTypeString stack dataTypes numstr raw = JStr s"
proof -
  from assms(3) have "js_get raw ''info'' \<noteq> JUndefined"
    by (cases "js_get raw ''info''") auto
  then have obj: "truthy raw" "\<not> is_string raw" "is_object raw"
    using js_get_defined_object by blast+
  from assms(3) have info: "truthy (js_get raw ''info'')"
    using truthy_js_get is_array_js_get by (cases "js_get raw ''info''") auto
  show ?thesis
    using assms(3)
    by (subst getColumnTypeString.simps)
      (auto simp: obj info assms(1,2) split: option.splits)
qed

lemma resolvable_result:
  assumes "resolvable_shape raw" and "[] \<notin> fst ` set dataTypes"
  shows "\<exists>s. s \<noteq> [] \<and> getColumnTypeString stack dataTypes numstr raw = JStr s"
proof -
  consider (str) "is_string raw"
    | (code) "js_get raw ''code'' \<noteq> JUndefined"
    | (name) "js_get raw ''code'' = JUndefined" "is_string (js_get raw ''name'')"
         "truthy (js_get raw ''name'')"
    | (coll) "js_get raw ''code'' = JUndefined" "\<not> truthy (js_get raw ''name'')"
        "(truthy (js_get (js_get raw ''info'') ''keyType'')
               \<and> truthy (js_get (js_get raw ''info'') ''valueType''))
           \<or> truthy (js_get (js_get raw ''info'') ''elementType'')
           \<or> is_array (js_get raw ''info'')
           \<or> is_array (js_get (js_get raw ''info'') ''types'')"
    using assms(1) unfolding resolvable_shape_def
    by (cases "js_get raw ''code''") auto
  then show ?thesis
  proof cases
    case str
    then obtain s where "raw = JStr s" by (cases raw) simp_all
    then show ?thesis by (simp add: getColumnTypeString_string)
  next
    case code
    show ?thesis
      unfolding getColumnTypeString_code[OF code]
      using find_name_nonempty[OF assms(2)]
      by (auto split: option.splits simp: toLowerCase_Nil)
  next
    case name
    then obtain s where s: "js_get raw ''name'' = JStr s" "s \<noteq> []"
      by (cases "js_get raw ''name''") simp_all
    then have "js_get raw ''name'' \<noteq> JUndefined" by simp
    from js_get_defined_object[OF this] name s show ?thesis
      by (subst getColumnTypeString.simps) simp
  next
    case coll
    then show ?thesis by (rule collection_result)
  qed
qed

text \<open>
  C8. For a descriptor of one of the resolvable shapes, resolving the resolved name
  again gives the same name, provided no name in the driver's table is empty: the
  result is a non-empty string, and a non-empty string resolves to itself.
\<close>

theorem resolve_idempotent:
  assumes "resolvable_shape raw" and "[] \<notin> fst ` set dataTypes"
  shows "getColumnTypeString stack dataTypes numstr
           (getColumnTypeString stack dataTypes numstr raw) =
         getColumnTypeString stack dataTypes numstr raw"
proof -
  from resolvable_result[OF assms] obtain s
    where "s \<noteq> []" and "getColumnTypeString stack dataTypes numstr raw = JStr s" by blast
  then show ?thesis by (simp add: getColumnTypeString_string)
qed

theorem resolve_idempotent_witness:
  "resolvable_shape map_descriptor
   \<and> [] \<notin> fst ` set driver_dataTypes
   \<and> getColumnTypeString 2 driver_dataTypes example_numstr
        (getColumnTypeString 2 driver_dataTypes example_numstr map_descriptor) =
       getColumnTypeString 2 driver_dataTypes example_numstr map_descriptor
   \<and> getColumnTypeString 2 driver_dataTypes example_numstr map_descriptor =
       JStr ''map<text, set<int>>''"
proof -
  have h1: "resolvable_shape map_descriptor"
    by (simp add: resolvable_shape_def map_descriptor_def)
  have h2: "[] \<notin> fst ` set driver_dataTypes"
    by (simp add: driver_dataTypes_def)
  have v: "getColumnTypeString 2 driver_dataTypes example_numstr map_descriptor =
             JStr ''map<text, set<int>>''"
    by code_simp
  from resolve_idempotent [OF h1 h2, of 2 example_numstr] h1 h2 v show ?thesis
    by simp
qed

section \<open>Table options\<close>

text \<open>
  The keys of a row are distinct, so \<^verbatim>\<open>tableInfo[key]\<close> is the value the entry
  itself carries.
\<close>

lemma get_field_distinct:
  assumes "distinct (map fst tableInfo)" and "(k, v) \<in> set tableInfo"
  shows "get_field tableInfo k = v"
  using assms by (simp add: get_field_def)

lemma tableOptions_distinct:
  assumes "distinct (map fst tableInfo)"
  shows "tableOptions numstr tableInfo =
           format_all numstr (filter (\<lambda>(k, v). k \<in> set optionsToInclude \<and> v \<noteq> JNull) tableInfo)"
proof -
  have "filter (\<lambda>(k, v). k \<in> set optionsToInclude \<and> get_field tableInfo k \<noteq> JNull) tableInfo =
        filter (\<lambda>(k, v). k \<in> set optionsToInclude \<and> v \<noteq> JNull) tableInfo"
    by (rule filter_cong) (auto simp: get_field_distinct[OF assms])
  then show ?thesis by (simp add: tableOptions_def)
qed

lemma format_all_lines:
  "format_all numstr es = Some lines \<Longrightarrow>
   list_all2 (\<lambda>(k, v) line. \<exists>lit. formatValue numstr v = Some lit
                               \<and> line = ''  '' @ camelCase k @ '' = '' @ lit) es lines"
proof (induction es arbitrary: lines)
  case Nil
  then show ?case by simp
next
  case (Cons e es)
  obtain k v where e: "e = (k, v)" by (cases e)
  from Cons.prems e obtain lit rest where
    lit: "formatValue numstr v = Some lit" and rest: "format_all numstr es = Some rest"
    and lines: "lines = (''  '' @ camelCase k @ '' = '' @ lit) # rest"
    by (auto split: option.splits)
  from Cons.IH[OF rest] lit show ?case
    unfolding lines e by simp
qed

lemma replace_quotes_no_quote: "CHR 0x22 \<notin> set (replace_quotes s)"
  by (auto simp: replace_quotes_def)

lemma formatValue_object:
  "\<exists>body. JSON_stringify numstr (JObj fs) = Some (''{'' @ body @ ''}'')
      \<and> formatValue numstr (JObj fs) = Some (''{'' @ replace_quotes body @ ''}'')
      \<and> CHR 0x22 \<notin> set (replace_quotes body)"
proof -
  let ?body = "join '',''
        (concat (map (\<lambda>kv. case JSON_stringify numstr (snd kv) of
                               None \<Rightarrow> []
                             | Some s \<Rightarrow> [json_quote (fst kv) @ '':'' @ s]) fs))"
  have 1: "JSON_stringify numstr (JObj fs) = Some (''{'' @ ?body @ ''}'')"
    by simp
  have 2: "formatValue numstr (JObj fs) = Some (''{'' @ replace_quotes ?body @ ''}'')"
    by (simp add: formatValue_def replace_quotes_def)
  from 1 2 replace_quotes_no_quote show ?thesis by blast
qed

lemma camelCase_optionsToInclude:
  "map camelCase optionsToInclude =
     [''bloomFilterFpChance'', ''caching'', ''comment'', ''compaction'', ''compression'',
      ''crcCheckChance'', ''defaultTimeToLive'', ''gcGraceSeconds'', ''readRepairChance'',
      ''speculativeRetry'']"
  by code_simp

text \<open>
  C6. The options are exactly the entries of the table row whose key is on the
  allow-list and whose value is not null, in row order, one line each: the key in
  camelCase, then the formatted value. A string value is put in single quotes; an
  object value is its JSON text, in braces, with every double quote replaced by a single
  quote; a boolean prints as it is, and a number as JavaScript prints it: an integer of
  magnitude up to \<open>2\<^sup>5\<^sup>3\<close> as its decimal digits, a value with a fraction as the
  runtime's number printing gives it. The ten allow-listed keys turn into
  bloomFilterFpChance, caching, comment, compaction, compression, crcCheckChance,
  defaultTimeToLive, gcGraceSeconds, readRepairChance and speculativeRetry. A null
  comment gives no line; the comment hello gives the line with the literal
  \<^verbatim>\<open>'hello'\<close>.
\<close>

theorem format_options:
  assumes "distinct (map fst tableInfo)"
  shows "(\<exists>lines. tableOptions numstr tableInfo = Some lines
           \<and> list_all2 (\<lambda>(k, v) line. \<exists>lit. formatValue numstr v = Some lit
                                        \<and> line = ''  '' @ camelCase k @ '' = '' @ lit)
                (filter (\<lambda>(k, v). k \<in> set optionsToInclude \<and> v \<noteq> JNull) tableInfo) lines)
    \<and> map camelCase optionsToInclude =
         [''bloomFilterFpChance'', ''caching'', ''comment'', ''compaction'', ''compression'',
          ''crcCheckChance'', ''defaultTimeToLive'', ''gcGraceSeconds'', ''readRepairChance'',
          ''speculativeRetry'']
    \<and> formatValue numstr (JStr s) = Some ([CHR 0x27] @ s @ [CHR 0x27])
    \<and> (\<exists>body. JSON_stringify numstr (JObj fs) = Some (''{'' @ body @ ''}'')
           \<and> formatValue numstr (JObj fs) = Some (''{'' @ replace_quotes body @ ''}'')
           \<and> CHR 0x22 \<notin> set (replace_quotes body))
    \<and> formatValue numstr (JNum x) = Some (Number_toString numstr x)
    \<and> (\<bar>i\<bar> \<le> 2 ^ 53 \<longrightarrow> formatValue numstr (JNum (Finite (of_int i))) = Some (show_int i))
    \<and> (of_int \<lfloor>q\<rfloor> \<noteq> q \<longrightarrow> formatValue numstr (JNum (Finite q)) = Some (numstr q))
    \<and> formatValue numstr (JBool b) = Some (if b then ''true'' else ''false'')
    \<and> tableOptions numstr [(''comment'', JNull)] = Some []
    \<and> tableOptions numstr [(''comment'', JStr ''hello'')] =
         Some [''  comment = '' @ [CHR 0x27] @ ''hello'' @ [CHR 0x27]]"
proof (intro conjI impI)
  obtain lines where lines: "tableOptions numstr tableInfo = Some lines"
    using tableOptions_Some by blast
  with tableOptions_distinct[OF assms]
  have "format_all numstr (filter (\<lambda>(k, v). k \<in> set optionsToInclude \<and> v \<noteq> JNull) tableInfo) = Some lines"
    by simp
  from format_all_lines[OF this] lines
  show "\<exists>lines. tableOptions numstr tableInfo = Some lines
           \<and> list_all2 (\<lambda>(k, v) line. \<exists>lit. formatValue numstr v = Some lit
                                        \<and> line = ''  '' @ camelCase k @ '' = '' @ lit)
                (filter (\<lambda>(k, v). k \<in> set optionsToInclude \<and> v \<noteq> JNull) tableInfo) lines"
    by blast
  show "map camelCase optionsToInclude =
         [''bloomFilterFpChance'', ''caching'', ''comment'', ''compaction'', ''compression'',
          ''crcCheckChance'', ''defaultTimeToLive'', ''gcGraceSeconds'', ''readRepairChance'',
          ''speculativeRetry'']"
    by (rule camelCase_optionsToInclude)
  show "formatValue numstr (JStr s) = Some ([CHR 0x27] @ s @ [CHR 0x27])"
    by (simp add: formatValue_def)
  show "\<exists>body. JSON_stringify numstr (JObj fs) = Some (''{'' @ body @ ''}'')
           \<and> formatValue numstr (JObj fs) = Some (''{'' @ replace_quotes body @ ''}'')
           \<and> CHR 0x22 \<notin> set (replace_quotes body)"
    by (rule formatValue_object)
  show "formatValue numstr (JNum x) = Some (Number_toString numstr x)"
    by (simp add: formatValue_def)
  show "formatValue numstr (JNum (Finite (of_int i))) = Some (show_int i)" if "\<bar>i\<bar> \<le> 2 ^ 53"
  proof -
    from that have "\<bar>(of_int i :: rat)\<bar> \<le> 2 ^ 53"
      by (metis of_int_abs of_int_le_iff of_int_numeral of_int_power)
    then show ?thesis by (simp add: formatValue_def)
  qed
  show "formatValue numstr (JNum (Finite q)) = Some (numstr q)" if "of_int \<lfloor>q\<rfloor> \<noteq> q"
    using that by (simp add: formatValue_def)
  show "formatValue numstr (JBool b) = Some (if b then ''true'' else ''false'')"
    by (simp add: formatValue_def)
  show "tableOptions numstr [(''comment'', JNull)] = Some []"
    by (simp add: tableOptions_def get_field_def)
  show "tableOptions numstr [(''comment'', JStr ''hello'')] =
         Some [''  comment = '' @ [CHR 0x27] @ ''hello'' @ [CHR 0x27]]"
    by (simp add: tableOptions_def get_field_def optionsToInclude_def formatValue_def)
qed

theorem format_options_witness:
  "distinct (map fst example_table_row)
   \<and> tableOptions example_numstr example_table_row =
       Some [''  bloomFilterFpChance = 0.01'',
             ''  comment = '' @ [CHR 0x27] @ ''hello'' @ [CHR 0x27],
             ''  gcGraceSeconds = 864000'',
             ''  caching = {'keys':'ALL','rows_per_partition':'NONE'}'']
   \<and> list_all2 (\<lambda>(k, v) line. \<exists>lit. formatValue example_numstr v = Some lit
                                \<and> line = ''  '' @ camelCase k @ '' = '' @ lit)
        (filter (\<lambda>(k, v). k \<in> set optionsToInclude \<and> v \<noteq> JNull) example_table_row)
        [''  bloomFilterFpChance = 0.01'',
         ''  comment = '' @ [CHR 0x27] @ ''hello'' @ [CHR 0x27],
         ''  gcGraceSeconds = 864000'',
         ''  caching = {'keys':'ALL','rows_per_partition':'NONE'}'']
   \<and> \<bar>864000 :: int\<bar> \<le> 2 ^ 53
   \<and> formatValue example_numstr (JNum (Finite 864000)) = Some ''864000''
   \<and> of_int \<lfloor>1 / 100 :: rat\<rfloor> \<noteq> (1 / 100 :: rat)
   \<and> formatValue example_numstr (JNum (Finite (1 / 100))) = Some ''0.01''"
proof -
  have h: "distinct (map fst example_table_row)"
    by (simp add: example_table_row_def)
  have f: "filter (\<lambda>(k, v). k \<in> set optionsToInclude \<and> v \<noteq> JNull) example_table_row =
     [(''bloom_filter_fp_chance'', JNum (Finite (1 / 100))),
      (''comment'', JStr ''hello''), (''gc_grace_seconds'', JNum (Finite 864000)),
      (''caching'', JObj [(''keys'', JStr ''ALL''), (''rows_per_partition'', JStr ''NONE'')])]"
    by (simp add: example_table_row_def optionsToInclude_def)
  have small: "\<bar>864000 :: int\<bar> \<le> 2 ^ 53"
    by simp
  have fl: "\<lfloor>1 / 100 :: rat\<rfloor> = 0"
    by (simp add: floor_eq_iff)
  have frac: "of_int \<lfloor>1 / 100 :: rat\<rfloor> \<noteq> (1 / 100 :: rat)"
    by (simp add: fl)
  have digits: "show_int 864000 = ''864000''"
    by (simp add: show_int_def show_nat.simps digit_char_values)
  note inst = format_options [OF h, of example_numstr _ _ _ 864000 "1 / 100"]
  from inst small have n: "formatValue example_numstr (JNum (Finite 864000)) = Some ''864000''"
    by (simp add: digits)
  from inst frac have b: "formatValue example_numstr (JNum (Finite (1 / 100))) = Some ''0.01''"
    by (simp add: example_numstr_def)
  have c: "camelCase ''gc_grace_seconds'' = ''gcGraceSeconds''"
    "camelCase ''bloom_filter_fp_chance'' = ''bloomFilterFpChance''"
    by code_simp+
  have c': "camelCase ''comment'' = ''comment''" "camelCase ''caching'' = ''caching''"
    by simp_all
  have s: "formatValue example_numstr (JStr ''hello'') = Some ([CHR 0x27] @ ''hello'' @ [CHR 0x27])"
    by (simp add: formatValue_def)
  have o: "formatValue example_numstr
             (JObj [(''keys'', JStr ''ALL''), (''rows_per_partition'', JStr ''NONE'')]) =
             Some ''{'keys':'ALL','rows_per_partition':'NONE'}''"
    by code_simp
  have v: "tableOptions example_numstr example_table_row =
       Some [''  bloomFilterFpChance = 0.01'',
             ''  comment = '' @ [CHR 0x27] @ ''hello'' @ [CHR 0x27],
             ''  gcGraceSeconds = 864000'',
             ''  caching = {'keys':'ALL','rows_per_partition':'NONE'}'']"
    unfolding tableOptions_distinct[OF h] f by (simp add: n b c c' s o del: camelCase.simps)
  from inst obtain lines where
    l: "tableOptions example_numstr example_table_row = Some lines"
    and a: "list_all2 (\<lambda>(k, v) line. \<exists>lit. formatValue example_numstr v = Some lit
                                        \<and> line = ''  '' @ camelCase k @ '' = '' @ lit)
                (filter (\<lambda>(k, v). k \<in> set optionsToInclude \<and> v \<noteq> JNull) example_table_row) lines"
    by blast
  from l v have "lines = [''  bloomFilterFpChance = 0.01'',
             ''  comment = '' @ [CHR 0x27] @ ''hello'' @ [CHR 0x27],
             ''  gcGraceSeconds = 864000'',
             ''  caching = {'keys':'ALL','rows_per_partition':'NONE'}'']"
    by simp
  with a have "list_all2 (\<lambda>(k, v) line. \<exists>lit. formatValue example_numstr v = Some lit
                                \<and> line = ''  '' @ camelCase k @ '' = '' @ lit)
        (filter (\<lambda>(k, v). k \<in> set optionsToInclude \<and> v \<noteq> JNull) example_table_row)
        [''  bloomFilterFpChance = 0.01'',
         ''  comment = '' @ [CHR 0x27] @ ''hello'' @ [CHR 0x27],
         ''  gcGraceSeconds = 864000'',
         ''  caching = {'keys':'ALL','rows_per_partition':'NONE'}'']"
    by (simp only:)
  with h v small n frac b show ?thesis by (intro conjI)
qed

end
